theory Spec2Isabelle
  imports Main
begin

section \<open>Python values used by both sensor platforms\<close>

text \<open>
  The exceptions that the modelled code can raise. None of them is caught in either
  module, so each one propagates to the caller.
\<close>

datatype py_error = KeyError | TypeError | ValueError | OverflowError | AttributeError

text \<open>
  A dict literal is kept as the list of its items in source order. The keys of every
  table below are pairwise distinct, so \<open>map_of\<close> (first match) agrees with the
  dict (last match). \<open>d[k]\<close> raises \<open>KeyError\<close> on a missing key,
  \<open>d.get(k, default)\<close> returns the default.
\<close>

definition dict_getitem :: "('k \<times> 'v) list \<Rightarrow> 'k \<Rightarrow> py_error + 'v" where
  "dict_getitem d k = (case map_of d k of None \<Rightarrow> Inl KeyError | Some v \<Rightarrow> Inr v)"

definition dict_get :: "('k \<times> 'v) list \<Rightarrow> 'k \<Rightarrow> 'v \<Rightarrow> 'v" where
  "dict_get d k dflt = (case map_of d k of None \<Rightarrow> dflt | Some v \<Rightarrow> v)"

section \<open>devolo_home_network/sensor.py\<close>

text \<open>
  The snapshot types come from the vendor library. A \<open>LogicalNetwork\<close> carries its
  list of data-rate records, and of a data-rate record this module reads the address of
  the sending device only; whatever else such a record holds is the record's extension
  (\<open>'r DataRate_scheme\<close>). The element types of the two Wi-Fi lists are never
  inspected (only \<open>len\<close> is taken), so they stay type variables.
\<close>

record DataRate =
  mac_address_from :: string

record 'r LogicalNetwork =
  data_rates :: "'r DataRate_scheme list"

text \<open>
  The three keys are string constants of the integration's \<open>const\<close> module, which is
  not among the source files; they are kept symbolic. Of a description, the key, the
  texts and the value function are kept; the fields that hold enum members of the host
  framework play no part in the value.
\<close>

datatype sensor_key = CONNECTED_PLC_DEVICES | CONNECTED_WIFI_CLIENTS | NEIGHBORING_WIFI_NETWORKS

record 'd DevoloSensorEntityDescription =
  key :: sensor_key
  icon :: string
  name :: string
  value_func :: "'d \<Rightarrow> int"

text \<open>Python's \<open>len\<close> on a list, and on the set built by a set comprehension.\<close>

definition len :: "'a list \<Rightarrow> int" where
  "len xs = int (length xs)"

definition len_set :: "'a set \<Rightarrow> int" where
  "len_set A = int (card A)"

text \<open>
  \<open>SENSOR_TYPES\<close> is a dict whose three entries have value functions on three
  different snapshot types, so each entry is a constant of its own type.
\<close>

definition SENSOR_TYPES_CONNECTED_PLC_DEVICES ::
  "'r LogicalNetwork DevoloSensorEntityDescription" where
  "SENSOR_TYPES_CONNECTED_PLC_DEVICES =
     \<lparr>key = CONNECTED_PLC_DEVICES, icon = ''mdi:lan'',
      name = ''Connected PLC devices'',
      value_func = (\<lambda>data. len_set (set (map mac_address_from (data_rates data))))\<rparr>"

definition SENSOR_TYPES_CONNECTED_WIFI_CLIENTS :: "'a list DevoloSensorEntityDescription" where
  "SENSOR_TYPES_CONNECTED_WIFI_CLIENTS =
     \<lparr>key = CONNECTED_WIFI_CLIENTS, icon = ''mdi:wifi'',
      name = ''Connected Wifi clients'', value_func = len\<rparr>"

definition SENSOR_TYPES_NEIGHBORING_WIFI_NETWORKS :: "'a list DevoloSensorEntityDescription" where
  "SENSOR_TYPES_NEIGHBORING_WIFI_NETWORKS =
     \<lparr>key = NEIGHBORING_WIFI_NETWORKS, icon = ''mdi:wifi-marker'',
      name = ''Neighboring Wifi networks'', value_func = len\<rparr>"

text \<open>\<open>DevoloSensorEntity.native_value\<close>, on the coordinator's latest snapshot.\<close>

definition devolo_native_value :: "'d DevoloSensorEntityDescription \<Rightarrow> 'd \<Rightarrow> int" where
  "devolo_native_value entity_description data = value_func entity_description data"

section \<open>whirlpool/sensor.py: the appliance client\<close>

text \<open>
  What the client's \<open>get_machine_state\<close> can answer. \<open>MachineState\<close> is an
  enum of the vendor library: its nineteen members named in this module are constructors
  of their own, and \<open>Unlisted\<close> stands for any further member the vendor enum may
  have. \<open>NoMachineState\<close> is the answer \<open>None\<close>, which the client gives when
  the state the appliance reports is no member of the enum. \<open>None\<close> is an object
  like any other to \<open>==\<close> and to a dict lookup, but it has no \<open>.value\<close>.
\<close>

datatype MachineState =
    Standby
  | Setting
  | DelayCountdownMode
  | DelayPause
  | SmartDelay
  | SmartGridPause
  | Pause
  | RunningMainCycle
  | RunningPostCycle
  | Exceptions
  | Complete
  | PowerFailure
  | ServiceDiagnostic
  | FactoryDiagnostic
  | LifeTest
  | CustomerFocusMode
  | DemoMode
  | HardStopOrError
  | SystemInit
  | Unlisted nat
  | NoMachineState

text \<open>
  The vendor client \<open>WasherDryer\<close>, as far as this module queries it: each field is
  the answer of the method of the same name on the client's cached data.
  \<open>get_attribute\<close> answers \<open>None\<close> for an attribute the appliance has not
  reported; the six cycle queries are read for their truth value.
\<close>

record WasherDryer =
  get_attribute :: "string \<Rightarrow> string option"
  get_machine_state :: MachineState
  get_cycle_status_filling :: bool
  get_cycle_status_rinsing :: bool
  get_cycle_status_sensing :: bool
  get_cycle_status_soaking :: bool
  get_cycle_status_spinning :: bool
  get_cycle_status_washing :: bool

section \<open>whirlpool/sensor.py: the static tables\<close>

definition TANK_FILL :: "(string \<times> string) list" where
  "TANK_FILL =
    [(''0'', ''Unknown''),
     (''1'', ''Empty''),
     (''2'', ''25%''),
     (''3'', ''50%''),
     (''4'', ''100%''),
     (''5'', ''Active'')]"

definition MACHINE_STATE :: "(MachineState \<times> string) list" where
  "MACHINE_STATE =
    [(Standby, ''Standby''),
     (Setting, ''Setting''),
     (DelayCountdownMode, ''Delay Countdown''),
     (DelayPause, ''Delay Paused''),
     (SmartDelay, ''Smart Delay''),
     (SmartGridPause, ''Smart Grid Pause''),
     (Pause, ''Pause''),
     (RunningMainCycle, ''Running Maincycle''),
     (RunningPostCycle, ''Running Postcycle''),
     (Exceptions, ''Exception''),
     (Complete, ''Complete''),
     (PowerFailure, ''Power Failure''),
     (ServiceDiagnostic, ''Service Diagnostic Mode''),
     (FactoryDiagnostic, ''Factory Diagnostic Mode''),
     (LifeTest, ''Life Test''),
     (CustomerFocusMode, ''Customer Focus Mode''),
     (DemoMode, ''Demo Mode''),
     (HardStopOrError, ''Hard Stop or Error''),
     (SystemInit, ''System Initialize'')]"

definition CYCLE_FUNC :: "((WasherDryer \<Rightarrow> bool) \<times> string) list" where
  "CYCLE_FUNC =
    [(get_cycle_status_filling, ''Cycle Filling''),
     (get_cycle_status_rinsing, ''Cycle Rinsing''),
     (get_cycle_status_sensing, ''Cycle Sensing''),
     (get_cycle_status_soaking, ''Cycle Soaking''),
     (get_cycle_status_spinning, ''Cycle Spinning''),
     (get_cycle_status_washing, ''Cycle Washing'')]"

definition ICON_W :: string where
  "ICON_W = ''mdi:washing-machine''"

text \<open>
  Modelled from the spec: \<open>STATE_UNKNOWN\<close> is imported from
  \<open>homeassistant.const\<close>, which is not among the source files; the spec calls it
  the "unknown" sentinel.
\<close>

definition STATE_UNKNOWN :: string where
  "STATE_UNKNOWN = ''unknown''"

section \<open>whirlpool/sensor.py: the status resolver\<close>

text \<open>
  The \<open>for func, cycle_name in CYCLE_FUNC\<close> loop of \<open>washer_state\<close>:
  \<open>Some cycle_name\<close> is the \<open>return cycle_name\<close> inside the loop,
  \<open>None\<close> is the loop running to its end.
\<close>

fun cycle_loop :: "((WasherDryer \<Rightarrow> bool) \<times> string) list \<Rightarrow> WasherDryer \<Rightarrow> string option" where
  "cycle_loop [] washer = None"
| "cycle_loop ((func, cycle_name) # rest) washer =
     (if func washer then Some cycle_name else cycle_loop rest washer)"

definition washer_state :: "WasherDryer \<Rightarrow> string" where
  "washer_state washer =
     (if get_attribute washer ''Cavity_OpStatusDoorOpen'' = Some ''1'' then ''Door open''
      else
        let machine_state = get_machine_state washer in
        case (if machine_state = RunningMainCycle then cycle_loop CYCLE_FUNC washer else None) of
          Some cycle_name \<Rightarrow> cycle_name
        | None \<Rightarrow> dict_get MACHINE_STATE machine_state STATE_UNKNOWN)"

section \<open>whirlpool/sensor.py: the sensor descriptions\<close>

text \<open>
  A value function either returns a display string or raises. The lambda of the
  \<open>DispenseLevel\<close> description indexes \<open>TANK_FILL\<close> with the attribute as the
  client reports it: a code that is no key of the table (also the \<open>None\<close> of an
  unreported attribute) raises \<open>KeyError\<close>.
\<close>

record WhirlpoolSensorEntityDescription =
  key :: string
  name :: string
  icon :: string
  has_entity_name :: bool
  value_fn :: "WasherDryer \<Rightarrow> py_error + string"

definition dispense_level :: "WasherDryer \<Rightarrow> py_error + string" where
  "dispense_level washer =
     (case get_attribute washer ''WashCavity_OpStatusBulkDispense1Level'' of
        None \<Rightarrow> Inl KeyError
      | Some code \<Rightarrow> dict_getitem TANK_FILL code)"

definition SENSORS :: "WhirlpoolSensorEntityDescription list" where
  "SENSORS =
    [\<lparr>key = ''state'', name = ''State'', icon = ICON_W, has_entity_name = True,
      value_fn = (\<lambda>washer. Inr (washer_state washer))\<rparr>,
     \<lparr>key = ''DispenseLevel'', name = ''Detergent Level'', icon = ICON_W,
      has_entity_name = True, value_fn = dispense_level\<rparr>]"

text \<open>\<open>WasherDryerClass.native_value\<close>: the description's function on the client.\<close>

definition native_value :: "WhirlpoolSensorEntityDescription \<Rightarrow> WasherDryer \<Rightarrow> py_error + string" where
  "native_value entity_description wd = value_fn entity_description wd"

section \<open>Python's \<open>int\<close>, \<open>datetime\<close> and \<open>timedelta\<close>\<close>

text \<open>
  \<open>int(x)\<close> on the value of an attribute: \<open>None\<close> raises \<open>TypeError\<close>; a string
  is stripped of surrounding whitespace and must then be an optional sign followed by
  decimal digits, where single underscores may stand between digits; anything else raises
  \<open>ValueError\<close>, and so does a numeral of more than \<open>sys.int_max_str_digits\<close>
  digits (4300 unless configured otherwise; leading zeros count, underscores do not).
  Strings are byte strings here, and the model is that of \<open>int\<close> on ASCII strings:
  it recognises no digit and no whitespace beyond ASCII, so a result \<open>Inr n\<close> is the
  result of \<open>int\<close>, and an error is the error of \<open>int\<close> when the string is
  ASCII.
\<close>

definition is_ascii :: "string \<Rightarrow> bool" where
  "is_ascii s = list_all (\<lambda>c. (of_char c :: nat) < 128) s"

definition int_max_str_digits :: nat where
  "int_max_str_digits = 4300"

definition py_isspace :: "char \<Rightarrow> bool" where
  "py_isspace c = (c \<in> set [CHR '' '', CHR 0x09, CHR 0x0A, CHR 0x0B, CHR 0x0C, CHR 0x0D])"

definition digit_of :: "char \<Rightarrow> nat option" where
  "digit_of c =
     (let k = (of_char c :: nat) in if 48 \<le> k \<and> k \<le> 57 then Some (k - 48) else None)"

fun int_digits :: "nat \<Rightarrow> string \<Rightarrow> nat option" where
  "int_digits acc [] = None"
| "int_digits acc (c # cs) =
     (case digit_of c of
        None \<Rightarrow> None
      | Some d \<Rightarrow>
          (case cs of
             [] \<Rightarrow> Some (10 * acc + d)
           | c' # cs' \<Rightarrow>
               if c' = CHR ''_'' then int_digits (10 * acc + d) cs'
               else int_digits (10 * acc + d) cs))"

definition py_strip :: "string \<Rightarrow> string" where
  "py_strip s = rev (dropWhile py_isspace (rev (dropWhile py_isspace s)))"

text \<open>The numeral after the sign: its syntax, then the limit on its number of digits.\<close>

definition py_numeral :: "string \<Rightarrow> nat option" where
  "py_numeral s =
     (case int_digits 0 s of
        None \<Rightarrow> None
      | Some n \<Rightarrow>
          if length (filter (\<lambda>c. c \<noteq> CHR ''_'') s) > int_max_str_digits then None
          else Some n)"

definition py_int :: "string option \<Rightarrow> py_error + int" where
  "py_int v =
     (case v of
        None \<Rightarrow> Inl TypeError
      | Some s \<Rightarrow>
          (case py_strip s of
             [] \<Rightarrow> Inl ValueError
           | c # cs \<Rightarrow>
               if c = CHR ''-'' then
                 (case py_numeral cs of None \<Rightarrow> Inl ValueError | Some n \<Rightarrow> Inr (- int n))
               else if c = CHR ''+'' then
                 (case py_numeral cs of None \<Rightarrow> Inl ValueError | Some n \<Rightarrow> Inr (int n))
               else
                 (case py_numeral (c # cs) of None \<Rightarrow> Inl ValueError | Some n \<Rightarrow> Inr (int n))))"

text \<open>
  An instant is the number of microseconds since \<open>datetime.min\<close>
  (0001-01-01T00:00:00 UTC), a duration a number of microseconds. The last instant a
  \<open>datetime\<close> can hold is 9999-12-31T23:59:59.999999, the last microsecond of day
  3652059. \<open>timedelta(seconds=n)\<close> raises \<open>OverflowError\<close> unless its day count
  \<open>n // 86400\<close> has magnitude at most 999999999, and so does an addition whose result
  is no \<open>datetime\<close>.
\<close>

type_synonym datetime = int

type_synonym timedelta = int

definition datetime_max :: datetime where
  "datetime_max = 3652059 * 86400 * 1000000 - 1"

definition is_datetime :: "int \<Rightarrow> bool" where
  "is_datetime d = (0 \<le> d \<and> d \<le> datetime_max)"

definition timedelta_seconds :: "int \<Rightarrow> py_error + timedelta" where
  "timedelta_seconds n =
     (if - 999999999 \<le> n div 86400 \<and> n div 86400 \<le> 999999999 then Inr (n * 1000000)
      else Inl OverflowError)"

definition datetime_add :: "datetime \<Rightarrow> timedelta \<Rightarrow> py_error + datetime" where
  "datetime_add d td =
     (if is_datetime (d + td) then Inr (d + td) else Inl OverflowError)"

section \<open>whirlpool/sensor.py: the completion-timestamp updater\<close>

text \<open>
  The mutable state of a \<open>WasherDryerTimeClass\<close> entity: \<open>running\<close> is
  \<open>self._running\<close> (a \<open>bool | None\<close>, \<open>None\<close> after construction),
  \<open>attr_native_value\<close> is \<open>self._attr_native_value\<close>, and \<open>ha_state_writes\<close>
  lists, oldest first, the values published by \<open>self._async_write_ha_state()\<close>.
\<close>

record WasherDryerTimeClass =
  running :: "bool option"
  attr_native_value :: "datetime option"
  ha_state_writes :: "datetime option list"

definition init_WasherDryerTimeClass :: WasherDryerTimeClass where
  "init_WasherDryerTimeClass =
     \<lparr>running = None, attr_native_value = None, ha_state_writes = []\<rparr>"

definition async_write_ha_state :: "WasherDryerTimeClass \<Rightarrow> WasherDryerTimeClass" where
  "async_write_ha_state self =
     self\<lparr>ha_state_writes := ha_state_writes self @ [attr_native_value self]\<rparr>"

text \<open>
  A call of the callback either returns or raises; in both cases the entity is left in
  the state given, since an assignment made before a raise stays.
\<close>

datatype 's outcome = Returned 's | Raised py_error 's

text \<open>
  \<open>update_from_latest_data\<close>, called on every push of the client. \<open>wd\<close> is the
  client's data at the push and \<open>now\<close> the value of \<open>utcnow()\<close>. The first
  \<open>if\<close> starts by reading \<open>machine_state.value\<close>: on the answer \<open>None\<close>
  this raises \<open>AttributeError\<close> before anything is assigned. The values of the enum
  members are declared in the vendor library, so \<open>val\<close>, the function from a member
  to its value, is a parameter. The second \<open>if\<close> compares the member itself
  (\<open>is\<close>).
\<close>

definition update_from_latest_data ::
  "(MachineState \<Rightarrow> 'v) \<Rightarrow> WasherDryer \<Rightarrow> datetime \<Rightarrow> WasherDryerTimeClass
   \<Rightarrow> WasherDryerTimeClass outcome" where
  "update_from_latest_data val wd now self =
     (let machine_state = get_machine_state wd in
      if machine_state = NoMachineState then Raised AttributeError self
      else
        let self1 =
              (if val machine_state \<in> {val Complete, val Standby} \<and> running self = Some True
               then async_write_ha_state
                      (self\<lparr>running := Some False, attr_native_value := Some now\<rparr>)
               else self)
        in
          if machine_state = RunningMainCycle then
            (let self2 = self1\<lparr>running := Some True\<rparr> in
             case py_int (get_attribute wd ''Cavity_TimeStatusEstTimeRemaining'') of
               Inl e \<Rightarrow> Raised e self2
             | Inr seconds \<Rightarrow>
                 (case timedelta_seconds seconds of
                    Inl e \<Rightarrow> Raised e self2
                  | Inr delta \<Rightarrow>
                      (case datetime_add now delta of
                         Inl e \<Rightarrow> Raised e self2
                       | Inr t \<Rightarrow>
                           Returned
                             (async_write_ha_state (self2\<lparr>attr_native_value := Some t\<rparr>)))))
          else Returned self1)"

text \<open>The entity as a call leaves it, whether the call returned or raised.\<close>

fun entity_after :: "'s outcome \<Rightarrow> 's" where
  "entity_after (Returned s) = s"
| "entity_after (Raised e s) = s"

section \<open>Sample inputs\<close>

text \<open>
  A washer in its main cycle with the door shut, no cycle flag raised, 600 seconds
  remaining and a half-full dispenser; and an instant in the year 2022.
\<close>

definition sample_washer :: WasherDryer where
  "sample_washer =
     \<lparr>get_attribute =
        [''Cavity_OpStatusDoorOpen'' \<mapsto> ''0'',
         ''Cavity_TimeStatusEstTimeRemaining'' \<mapsto> ''600'',
         ''WashCavity_OpStatusBulkDispense1Level'' \<mapsto> ''3''],
      get_machine_state = RunningMainCycle,
      get_cycle_status_filling = False,
      get_cycle_status_rinsing = False,
      get_cycle_status_sensing = False,
      get_cycle_status_soaking = False,
      get_cycle_status_spinning = False,
      get_cycle_status_washing = False\<rparr>"

definition set_attribute :: "string \<Rightarrow> string option \<Rightarrow> WasherDryer \<Rightarrow> WasherDryer" where
  "set_attribute a v washer = washer\<lparr>get_attribute := (get_attribute washer)(a := v)\<rparr>"

definition sample_now :: datetime where
  "sample_now = 63800000000000000"

text \<open>An entity whose washer is running and is expected to finish in ten minutes.\<close>

definition sample_entity :: WasherDryerTimeClass where
  "sample_entity =
     \<lparr>running = Some True, attr_native_value = Some (sample_now + 600000000),
      ha_state_writes = [Some (sample_now + 600000000)]\<rparr>"

section \<open>Facts about the tables\<close>

text \<open>The loop over \<open>CYCLE_FUNC\<close>, unrolled.\<close>

lemma cycle_loop_CYCLE_FUNC:
  "cycle_loop CYCLE_FUNC washer =
     (if get_cycle_status_filling washer then Some ''Cycle Filling''
      else if get_cycle_status_rinsing washer then Some ''Cycle Rinsing''
      else if get_cycle_status_sensing washer then Some ''Cycle Sensing''
      else if get_cycle_status_soaking washer then Some ''Cycle Soaking''
      else if get_cycle_status_spinning washer then Some ''Cycle Spinning''
      else if get_cycle_status_washing washer then Some ''Cycle Washing''
      else None)"
  by (simp add: CYCLE_FUNC_def)

lemma MACHINE_STATE_keys:
  "map fst MACHINE_STATE =
     [Standby, Setting, DelayCountdownMode, DelayPause, SmartDelay, SmartGridPause, Pause,
      RunningMainCycle, RunningPostCycle, Exceptions, Complete, PowerFailure,
      ServiceDiagnostic, FactoryDiagnostic, LifeTest, CustomerFocusMode, DemoMode,
      HardStopOrError, SystemInit]"
  by (simp add: MACHINE_STATE_def)

text \<open>No key is listed twice, in either table, so the item lists are the dicts.\<close>

lemma MACHINE_STATE_distinct: "distinct (map fst MACHINE_STATE)"
  unfolding MACHINE_STATE_keys by simp

lemma MACHINE_STATE_length: "length MACHINE_STATE = 19"
  by (simp add: MACHINE_STATE_def)

text \<open>
  The answers without an entry are exactly the unlisted members and \<open>None\<close>.
\<close>

lemma MACHINE_STATE_absent_iff:
  "machine_state \<notin> set (map fst MACHINE_STATE) \<longleftrightarrow>
     (\<exists>n. machine_state = Unlisted n) \<or> machine_state = NoMachineState"
  unfolding MACHINE_STATE_keys by (cases machine_state) simp_all

lemma TANK_FILL_distinct: "distinct (map fst TANK_FILL) \<and> length TANK_FILL = 6"
  by (simp add: TANK_FILL_def)

section \<open>Properties of the status resolver\<close>

text \<open>What \<open>washer_state\<close> does once the door test has failed.\<close>

lemma washer_state_door_shut:
  "get_attribute washer ''Cavity_OpStatusDoorOpen'' \<noteq> Some ''1'' \<Longrightarrow>
   washer_state washer =
     (case (if get_machine_state washer = RunningMainCycle then cycle_loop CYCLE_FUNC washer
            else None) of
        Some cycle_name \<Rightarrow> cycle_name
      | None \<Rightarrow> dict_get MACHINE_STATE (get_machine_state washer) STATE_UNKNOWN)"
  by (simp add: washer_state_def split: option.split)

text \<open>
  C4. Whenever the door-open attribute reads \<open>"1"\<close>, the status resolver returns
  \<open>"Door open"\<close>, whatever the machine state and the six cycle flags are.
\<close>

theorem washer_state_door_open:
  "get_attribute washer ''Cavity_OpStatusDoorOpen'' = Some ''1''
   \<Longrightarrow> washer_state washer = ''Door open''"
  by (simp add: washer_state_def)

text \<open>
  The door is open on a washer that is in its main cycle and reports that it is
  spinning: the status is still \<open>"Door open"\<close>.
\<close>

theorem washer_state_door_open_witness:
  "get_attribute
     (set_attribute ''Cavity_OpStatusDoorOpen'' (Some ''1'')
        (sample_washer\<lparr>get_cycle_status_spinning := True\<rparr>))
     ''Cavity_OpStatusDoorOpen'' = Some ''1'' \<and>
   get_machine_state
     (set_attribute ''Cavity_OpStatusDoorOpen'' (Some ''1'')
        (sample_washer\<lparr>get_cycle_status_spinning := True\<rparr>)) = RunningMainCycle \<and>
   get_cycle_status_spinning
     (set_attribute ''Cavity_OpStatusDoorOpen'' (Some ''1'')
        (sample_washer\<lparr>get_cycle_status_spinning := True\<rparr>)) \<and>
   washer_state
     (set_attribute ''Cavity_OpStatusDoorOpen'' (Some ''1'')
        (sample_washer\<lparr>get_cycle_status_spinning := True\<rparr>)) = ''Door open''"
  using washer_state_door_open
    [of "set_attribute ''Cavity_OpStatusDoorOpen'' (Some ''1'')
           (sample_washer\<lparr>get_cycle_status_spinning := True\<rparr>)"]
  by (simp add: set_attribute_def sample_washer_def)

text \<open>
  C5. With the door not open and the machine state \<open>RunningMainCycle\<close>, the six
  cycle queries are probed in the order filling, rinsing, sensing, soaking, spinning,
  washing, and the label of the first one that is true is returned: a query decides the
  result exactly when every query before it in that order is false, whatever the later
  ones are.
\<close>

theorem washer_state_cycle_order:
  assumes "get_attribute washer ''Cavity_OpStatusDoorOpen'' \<noteq> Some ''1''"
    and "get_machine_state washer = RunningMainCycle"
  shows "(get_cycle_status_filling washer \<longrightarrow> washer_state washer = ''Cycle Filling'') \<and>
    (\<not> get_cycle_status_filling washer \<and> get_cycle_status_rinsing washer
       \<longrightarrow> washer_state washer = ''Cycle Rinsing'') \<and>
    (\<not> get_cycle_status_filling washer \<and> \<not> get_cycle_status_rinsing washer \<and>
     get_cycle_status_sensing washer
       \<longrightarrow> washer_state washer = ''Cycle Sensing'') \<and>
    (\<not> get_cycle_status_filling washer \<and> \<not> get_cycle_status_rinsing washer \<and>
     \<not> get_cycle_status_sensing washer \<and> get_cycle_status_soaking washer
       \<longrightarrow> washer_state washer = ''Cycle Soaking'') \<and>
    (\<not> get_cycle_status_filling washer \<and> \<not> get_cycle_status_rinsing washer \<and>
     \<not> get_cycle_status_sensing washer \<and> \<not> get_cycle_status_soaking washer \<and>
     get_cycle_status_spinning washer
       \<longrightarrow> washer_state washer = ''Cycle Spinning'') \<and>
    (\<not> get_cycle_status_filling washer \<and> \<not> get_cycle_status_rinsing washer \<and>
     \<not> get_cycle_status_sensing washer \<and> \<not> get_cycle_status_soaking washer \<and>
     \<not> get_cycle_status_spinning washer \<and> get_cycle_status_washing washer
       \<longrightarrow> washer_state washer = ''Cycle Washing'')"
  using assms by (simp add: washer_state_door_shut cycle_loop_CYCLE_FUNC)

text \<open>Rinsing, spinning and washing are all true: the earliest, rinsing, wins.\<close>

theorem washer_state_cycle_order_witness:
  "get_attribute (sample_washer\<lparr>get_cycle_status_rinsing := True,
      get_cycle_status_spinning := True, get_cycle_status_washing := True\<rparr>)
     ''Cavity_OpStatusDoorOpen'' \<noteq> Some ''1'' \<and>
   get_machine_state (sample_washer\<lparr>get_cycle_status_rinsing := True,
      get_cycle_status_spinning := True, get_cycle_status_washing := True\<rparr>) = RunningMainCycle \<and>
   washer_state (sample_washer\<lparr>get_cycle_status_rinsing := True,
      get_cycle_status_spinning := True, get_cycle_status_washing := True\<rparr>) = ''Cycle Rinsing''"
  using washer_state_cycle_order [of "sample_washer\<lparr>get_cycle_status_rinsing := True,
      get_cycle_status_spinning := True, get_cycle_status_washing := True\<rparr>"]
  by (simp add: sample_washer_def)

text \<open>
  C6. With the door not open, the machine state \<open>RunningMainCycle\<close> and all six
  cycle queries false, the resolver falls through to the lookup in \<open>MACHINE_STATE\<close>
  and returns \<open>"Running Maincycle"\<close>.
\<close>

theorem washer_state_no_cycle_flag:
  assumes "get_attribute washer ''Cavity_OpStatusDoorOpen'' \<noteq> Some ''1''"
    and "get_machine_state washer = RunningMainCycle"
    and "\<not> get_cycle_status_filling washer" and "\<not> get_cycle_status_rinsing washer"
    and "\<not> get_cycle_status_sensing washer" and "\<not> get_cycle_status_soaking washer"
    and "\<not> get_cycle_status_spinning washer" and "\<not> get_cycle_status_washing washer"
  shows "washer_state washer = ''Running Maincycle''"
  using assms
  by (simp add: washer_state_door_shut cycle_loop_CYCLE_FUNC dict_get_def MACHINE_STATE_def)

theorem washer_state_no_cycle_flag_witness:
  "get_attribute sample_washer ''Cavity_OpStatusDoorOpen'' \<noteq> Some ''1'' \<and>
   get_machine_state sample_washer = RunningMainCycle \<and>
   washer_state sample_washer = ''Running Maincycle''"
  using washer_state_no_cycle_flag [of sample_washer]
  by (simp add: sample_washer_def)

text \<open>
  C7. With the door not open, a machine state that is no key of \<open>MACHINE_STATE\<close>
  resolves to the sentinel \<open>STATE_UNKNOWN\<close>; \<open>washer_state\<close> has no error
  result at all, so there is no lookup failure.
\<close>

theorem washer_state_unknown:
  assumes "get_attribute washer ''Cavity_OpStatusDoorOpen'' \<noteq> Some ''1''"
    and "get_machine_state washer \<notin> set (map fst MACHINE_STATE)"
  shows "washer_state washer = STATE_UNKNOWN"
proof -
  from assms(2) have absent: "map_of MACHINE_STATE (get_machine_state washer) = None"
    by (simp add: map_of_eq_None_iff)
  from assms(2) have "get_machine_state washer \<noteq> RunningMainCycle"
    unfolding MACHINE_STATE_keys by auto
  with assms(1) absent show ?thesis
    by (simp add: washer_state_door_shut dict_get_def)
qed

theorem washer_state_unknown_witness:
  "get_attribute (sample_washer\<lparr>get_machine_state := Unlisted 19\<rparr>) ''Cavity_OpStatusDoorOpen''
     \<noteq> Some ''1'' \<and>
   get_machine_state (sample_washer\<lparr>get_machine_state := Unlisted 19\<rparr>)
     \<notin> set (map fst MACHINE_STATE) \<and>
   washer_state (sample_washer\<lparr>get_machine_state := Unlisted 19\<rparr>) = STATE_UNKNOWN"
  using washer_state_unknown [of "sample_washer\<lparr>get_machine_state := Unlisted 19\<rparr>"]
  by (simp add: sample_washer_def MACHINE_STATE_keys)

text \<open>
  C10. The door counts as open only when the attribute is exactly the string
  \<open>"1"\<close>. For every other value, the \<open>None\<close> of a missing attribute included,
  the resolver does not return \<open>"Door open"\<close>: the result is the one computed from
  the machine state (the cycle loop, then the table), and it is the same as for a washer
  that reports no door attribute at all.
\<close>

theorem washer_state_door_not_one:
  assumes "get_attribute washer ''Cavity_OpStatusDoorOpen'' \<noteq> Some ''1''"
  shows "washer_state washer \<noteq> ''Door open'' \<and>
    washer_state washer =
      (case (if get_machine_state washer = RunningMainCycle then cycle_loop CYCLE_FUNC washer
             else None) of
         Some cycle_name \<Rightarrow> cycle_name
       | None \<Rightarrow> dict_get MACHINE_STATE (get_machine_state washer) STATE_UNKNOWN) \<and>
    washer_state washer = washer_state (set_attribute ''Cavity_OpStatusDoorOpen'' None washer)"
proof -
  have shut: "get_attribute (set_attribute ''Cavity_OpStatusDoorOpen'' None washer)
      ''Cavity_OpStatusDoorOpen'' \<noteq> Some ''1''"
    by (simp add: set_attribute_def)
  have same: "washer_state (set_attribute ''Cavity_OpStatusDoorOpen'' None washer) =
      washer_state washer"
    unfolding washer_state_door_shut [OF shut] washer_state_door_shut [OF assms]
    by (simp add: set_attribute_def cycle_loop_CYCLE_FUNC)
  have "washer_state washer \<noteq> ''Door open''"
    unfolding washer_state_door_shut [OF assms] cycle_loop_CYCLE_FUNC
    by (cases "get_machine_state washer")
       (simp_all add: dict_get_def MACHINE_STATE_def STATE_UNKNOWN_def)
  with same washer_state_door_shut [OF assms] show ?thesis by simp
qed

text \<open>
  The values \<open>"0"\<close>, \<open>"true"\<close> and \<open>None\<close>: the status is the machine
  state's.
\<close>

theorem washer_state_door_not_one_witness:
  "get_attribute (sample_washer\<lparr>get_machine_state := Complete\<rparr>) ''Cavity_OpStatusDoorOpen''
     = Some ''0'' \<and>
   washer_state (sample_washer\<lparr>get_machine_state := Complete\<rparr>) = ''Complete'' \<and>
   get_attribute (set_attribute ''Cavity_OpStatusDoorOpen'' (Some ''true'') sample_washer)
     ''Cavity_OpStatusDoorOpen'' = Some ''true'' \<and>
   washer_state (set_attribute ''Cavity_OpStatusDoorOpen'' (Some ''true'') sample_washer)
     = ''Running Maincycle'' \<and>
   get_attribute (set_attribute ''Cavity_OpStatusDoorOpen'' None sample_washer)
     ''Cavity_OpStatusDoorOpen'' = None \<and>
   washer_state (set_attribute ''Cavity_OpStatusDoorOpen'' None sample_washer)
     = ''Running Maincycle''"
  using washer_state_door_not_one [of "sample_washer\<lparr>get_machine_state := Complete\<rparr>"]
    washer_state_door_not_one
      [of "set_attribute ''Cavity_OpStatusDoorOpen'' (Some ''true'') sample_washer"]
    washer_state_door_not_one [of "set_attribute ''Cavity_OpStatusDoorOpen'' None sample_washer"]
  by (simp add: set_attribute_def sample_washer_def cycle_loop_CYCLE_FUNC dict_get_def
      MACHINE_STATE_def)

text \<open>
  The answer \<open>None\<close> is such a value as well: the comparison with
  \<open>RunningMainCycle\<close> is false and the lookup finds no entry.
\<close>

lemma washer_state_no_machine_state:
  "washer_state (sample_washer\<lparr>get_machine_state := NoMachineState\<rparr>) = ''unknown''"
  by (simp add: washer_state_def sample_washer_def dict_get_def MACHINE_STATE_def
      STATE_UNKNOWN_def)

section \<open>Properties of the dispenser fill level\<close>

text \<open>
  C8. The value function of the \<open>DispenseLevel\<close> description looks the reported
  code up in the six-entry table \<open>TANK_FILL\<close>: the codes \<open>"0"\<close> to
  \<open>"5"\<close> give their labels, and every other code raises \<open>KeyError\<close>, which
  nothing catches; the table has no default entry.
\<close>

theorem dispense_level_lookup:
  assumes "get_attribute washer ''WashCavity_OpStatusBulkDispense1Level'' = Some code"
  shows "key (SENSORS ! 1) = ''DispenseLevel'' \<and> length TANK_FILL = 6 \<and>
    native_value (SENSORS ! 1) washer =
      (if code = ''0'' then Inr ''Unknown''
       else if code = ''1'' then Inr ''Empty''
       else if code = ''2'' then Inr ''25%''
       else if code = ''3'' then Inr ''50%''
       else if code = ''4'' then Inr ''100%''
       else if code = ''5'' then Inr ''Active''
       else Inl KeyError)"
  using assms
  by (simp add: SENSORS_def native_value_def dispense_level_def dict_getitem_def TANK_FILL_def)

text \<open>The code \<open>"3"\<close> is \<open>"50%"\<close>; the code \<open>"6"\<close> raises.\<close>

theorem dispense_level_lookup_witness:
  "get_attribute sample_washer ''WashCavity_OpStatusBulkDispense1Level'' = Some ''3'' \<and>
   native_value (SENSORS ! 1) sample_washer = Inr ''50%'' \<and>
   get_attribute (set_attribute ''WashCavity_OpStatusBulkDispense1Level'' (Some ''6'') sample_washer)
     ''WashCavity_OpStatusBulkDispense1Level'' = Some ''6'' \<and>
   native_value (SENSORS ! 1)
     (set_attribute ''WashCavity_OpStatusBulkDispense1Level'' (Some ''6'') sample_washer)
     = Inl KeyError"
  using dispense_level_lookup [of sample_washer "''3''"]
    dispense_level_lookup
      [of "set_attribute ''WashCavity_OpStatusBulkDispense1Level'' (Some ''6'') sample_washer"
          "''6''"]
  by (simp add: set_attribute_def sample_washer_def)

section \<open>Properties of the network metrics\<close>

text \<open>
  C9. For every snapshot, the value function of the powerline metric returns the number
  of distinct source addresses among the data-rate records, and the value functions of
  the Wi-Fi client metric and of the neighbouring-network metric return the length of
  their list.
\<close>

theorem devolo_value_funcs:
  "devolo_native_value SENSOR_TYPES_CONNECTED_PLC_DEVICES data =
     int (card {a. \<exists>device \<in> set (data_rates data). mac_address_from device = a}) \<and>
   devolo_native_value SENSOR_TYPES_CONNECTED_WIFI_CLIENTS stations = int (length stations) \<and>
   devolo_native_value SENSOR_TYPES_NEIGHBORING_WIFI_NETWORKS neighbors = int (length neighbors)"
proof -
  have "set (map mac_address_from (data_rates data)) =
      {a. \<exists>device \<in> set (data_rates data). mac_address_from device = a}"
    by auto
  then show ?thesis
    by (simp add: devolo_native_value_def SENSOR_TYPES_CONNECTED_PLC_DEVICES_def
        SENSOR_TYPES_CONNECTED_WIFI_CLIENTS_def SENSOR_TYPES_NEIGHBORING_WIFI_NETWORKS_def
        len_def len_set_def)
qed

text \<open>
  Four data-rate records, pairwise different, from the addresses A, A, B and C: three
  devices.
\<close>

lemma devolo_plc_example:
  "devolo_native_value SENSOR_TYPES_CONNECTED_PLC_DEVICES
     \<lparr>data_rates =
        [\<lparr>mac_address_from = ''A'', \<dots> = ''B''\<rparr>, \<lparr>mac_address_from = ''A'', \<dots> = ''C''\<rparr>,
         \<lparr>mac_address_from = ''B'', \<dots> = ''A''\<rparr>, \<lparr>mac_address_from = ''C'', \<dots> = ''A''\<rparr>]\<rparr> = 3"
  by (simp add: devolo_native_value_def SENSOR_TYPES_CONNECTED_PLC_DEVICES_def len_set_def)

section \<open>Properties of the completion-timestamp updater\<close>

text \<open>
  A number of seconds that leads from one instant to another is far inside the range of
  \<open>timedelta\<close>, so only the addition can overflow.
\<close>

lemma timedelta_seconds_ok:
  assumes "is_datetime now" and "is_datetime (now + seconds * 1000000)"
  shows "timedelta_seconds seconds = Inr (seconds * 1000000)"
proof -
  from assms have "- datetime_max \<le> seconds * 1000000" and "seconds * 1000000 \<le> datetime_max"
    by (simp_all add: is_datetime_def)
  then have lo: "- 315537897600 \<le> seconds" and hi: "seconds \<le> 315537897600"
    by (simp_all add: datetime_max_def)
  have "(- 315537897600) div 86400 \<le> seconds div 86400"
    using lo by (rule zdiv_mono1) simp
  moreover have "seconds div 86400 \<le> 315537897600 div 86400"
    using hi by (rule zdiv_mono1) simp
  ultimately have "- 999999999 \<le> seconds div 86400" and "seconds div 86400 \<le> 999999999"
    by simp_all
  then show ?thesis by (simp add: timedelta_seconds_def)
qed

text \<open>
  The ways through \<open>update_from_latest_data\<close>: three that return and two that raise.
  On the answer \<open>None\<close> the raise comes before any assignment. In the running
  branch the flag is set before the attribute is parsed, so a raise there leaves the flag
  set and the stored value as it was.
\<close>

lemma update_running_step:
  assumes "get_machine_state wd = RunningMainCycle"
    and "py_int (get_attribute wd ''Cavity_TimeStatusEstTimeRemaining'') = Inr seconds"
    and "is_datetime now" and "is_datetime (now + seconds * 1000000)"
  shows "\<exists>self'. update_from_latest_data val wd now self = Returned self' \<and>
    running self' = Some True \<and> attr_native_value self' = Some (now + seconds * 1000000)"
proof -
  have td: "timedelta_seconds seconds = Inr (seconds * 1000000)"
    using assms(3,4) by (rule timedelta_seconds_ok)
  have add: "datetime_add now (seconds * 1000000) = Inr (now + seconds * 1000000)"
    using assms(4) by (simp add: datetime_add_def)
  show ?thesis
    by (simp add: update_from_latest_data_def Let_def assms(1,2) td add async_write_ha_state_def)
qed

lemma update_finish_step:
  assumes "get_machine_state wd = Complete \<or> get_machine_state wd = Standby"
    and "running self = Some True"
  shows "update_from_latest_data val wd now self =
    Returned (self\<lparr>running := Some False, attr_native_value := Some now,
      ha_state_writes := ha_state_writes self @ [Some now]\<rparr>)"
proof -
  from assms(1) have "val (get_machine_state wd) \<in> {val Complete, val Standby}"
    and "get_machine_state wd \<noteq> RunningMainCycle"
    and "get_machine_state wd \<noteq> NoMachineState"
    by auto
  with assms(2) show ?thesis
    by (simp add: update_from_latest_data_def Let_def async_write_ha_state_def)
qed

lemma update_other_step:
  assumes "inj_on val {m. m \<noteq> NoMachineState}"
    and "get_machine_state wd \<noteq> RunningMainCycle"
    and "get_machine_state wd \<noteq> NoMachineState"
    and "\<not> ((get_machine_state wd = Complete \<or> get_machine_state wd = Standby) \<and>
            running self = Some True)"
  shows "update_from_latest_data val wd now self = Returned self"
proof -
  from assms(1,3) have "val (get_machine_state wd) \<in> {val Complete, val Standby} \<longleftrightarrow>
      get_machine_state wd = Complete \<or> get_machine_state wd = Standby"
    by (auto dest: inj_onD)
  with assms(2,3,4) show ?thesis
    by (auto simp add: update_from_latest_data_def Let_def)
qed

lemma update_none_step:
  assumes "get_machine_state wd = NoMachineState"
  shows "update_from_latest_data val wd now self = Raised AttributeError self"
  using assms by (simp add: update_from_latest_data_def)

lemma update_running_raises:
  assumes "inj_on val {m. m \<noteq> NoMachineState}"
    and "get_machine_state wd = RunningMainCycle"
    and "py_int (get_attribute wd ''Cavity_TimeStatusEstTimeRemaining'') = Inl e"
    and "case get_attribute wd ''Cavity_TimeStatusEstTimeRemaining'' of
           None \<Rightarrow> True | Some s \<Rightarrow> is_ascii s"
  shows "update_from_latest_data val wd now self = Raised e (self\<lparr>running := Some True\<rparr>)"
proof -
  from assms(1) have "val RunningMainCycle \<notin> {val Complete, val Standby}"
    by (auto dest: inj_onD)
  with assms(2,3) show ?thesis
    by (simp add: update_from_latest_data_def Let_def)
qed

text \<open>
  C1, as amended. On a push in machine state \<open>RunningMainCycle\<close> whose
  remaining-seconds attribute reads as the integer \<open>seconds\<close>, at an instant
  \<open>now\<close> for which \<open>now\<close> plus that many seconds is still an instant a
  \<open>datetime\<close> can hold, the updater returns with the running flag true and the stored
  timestamp \<open>now\<close> plus \<open>seconds\<close> seconds, whatever the entity held before. A
  second such push overwrites the first estimate with its own, so the stored timestamp
  moves earlier exactly when the remaining-seconds value has dropped by more than the
  time that passed between the two pushes, as it has when 300 seconds are reported 5
  seconds after 600 seconds.
\<close>

theorem update_running_recomputes:
  assumes "get_machine_state wd1 = RunningMainCycle"
    and "py_int (get_attribute wd1 ''Cavity_TimeStatusEstTimeRemaining'') = Inr seconds1"
    and "is_datetime now1" and "is_datetime (now1 + seconds1 * 1000000)"
    and "get_machine_state wd2 = RunningMainCycle"
    and "py_int (get_attribute wd2 ''Cavity_TimeStatusEstTimeRemaining'') = Inr seconds2"
    and "is_datetime now2" and "is_datetime (now2 + seconds2 * 1000000)"
  shows "\<exists>self1 self2 t1 t2.
    update_from_latest_data val wd1 now1 self = Returned self1 \<and>
    running self1 = Some True \<and> attr_native_value self1 = Some t1 \<and>
    t1 = now1 + seconds1 * 1000000 \<and>
    update_from_latest_data val wd2 now2 self1 = Returned self2 \<and>
    running self2 = Some True \<and> attr_native_value self2 = Some t2 \<and>
    t2 = now2 + seconds2 * 1000000 \<and>
    (t2 < t1 \<longleftrightarrow> now2 - now1 < (seconds1 - seconds2) * 1000000)"
proof -
  from update_running_step [OF assms(1-4)] obtain self1 where
    s1: "update_from_latest_data val wd1 now1 self = Returned self1"
      "running self1 = Some True" "attr_native_value self1 = Some (now1 + seconds1 * 1000000)"
    by blast
  from update_running_step [OF assms(5-8)] obtain self2 where
    s2: "update_from_latest_data val wd2 now2 self1 = Returned self2"
      "running self2 = Some True" "attr_native_value self2 = Some (now2 + seconds2 * 1000000)"
    by blast
  have "now2 + seconds2 * 1000000 < now1 + seconds1 * 1000000 \<longleftrightarrow>
      now2 - now1 < (seconds1 - seconds2) * 1000000"
    by (simp add: algebra_simps)
  with s1 s2 show ?thesis by blast
qed

text \<open>
  The sample washer reports 600 seconds at \<open>sample_now\<close> and 300 seconds five
  seconds later: the stored timestamp goes from \<open>sample_now\<close> + 600 s back to
  \<open>sample_now\<close> + 305 s.
\<close>

theorem update_running_recomputes_witness:
  "get_machine_state sample_washer = RunningMainCycle \<and>
   py_int (get_attribute sample_washer ''Cavity_TimeStatusEstTimeRemaining'') = Inr 600 \<and>
   py_int (get_attribute
      (set_attribute ''Cavity_TimeStatusEstTimeRemaining'' (Some ''300'') sample_washer)
      ''Cavity_TimeStatusEstTimeRemaining'') = Inr 300 \<and>
   update_from_latest_data (\<lambda>m. m) sample_washer sample_now init_WasherDryerTimeClass =
     Returned sample_entity \<and>
   attr_native_value sample_entity = Some (sample_now + 600 * 1000000) \<and>
   update_from_latest_data (\<lambda>m. m)
     (set_attribute ''Cavity_TimeStatusEstTimeRemaining'' (Some ''300'') sample_washer)
     (sample_now + 5 * 1000000) sample_entity =
     Returned \<lparr>running = Some True,
       attr_native_value = Some (sample_now + 5 * 1000000 + 300 * 1000000),
       ha_state_writes =
         [Some (sample_now + 600000000), Some (sample_now + 5 * 1000000 + 300 * 1000000)]\<rparr> \<and>
   sample_now + 5 * 1000000 + 300 * 1000000 < sample_now + 600 * (1000000::int)"
proof -
  let ?wd2 = "set_attribute ''Cavity_TimeStatusEstTimeRemaining'' (Some ''300'') sample_washer"
  have h1: "get_machine_state sample_washer = RunningMainCycle"
    by (simp add: sample_washer_def)
  have h2: "py_int (get_attribute sample_washer ''Cavity_TimeStatusEstTimeRemaining'') = Inr 600"
    by (simp add: sample_washer_def py_int_def py_numeral_def int_max_str_digits_def py_strip_def py_isspace_def digit_of_def)
  have h3: "is_datetime sample_now"
    by (simp add: is_datetime_def sample_now_def datetime_max_def)
  have h4: "is_datetime (sample_now + 600 * 1000000)"
    by (simp add: is_datetime_def sample_now_def datetime_max_def)
  have h5: "get_machine_state ?wd2 = RunningMainCycle"
    by (simp add: set_attribute_def sample_washer_def)
  have h6: "py_int (get_attribute ?wd2 ''Cavity_TimeStatusEstTimeRemaining'') = Inr 300"
    by (simp add: set_attribute_def py_int_def py_numeral_def int_max_str_digits_def py_strip_def py_isspace_def digit_of_def)
  have h7: "is_datetime (sample_now + 5 * 1000000)"
    by (simp add: is_datetime_def sample_now_def datetime_max_def)
  have h8: "is_datetime (sample_now + 5 * 1000000 + 300 * 1000000)"
    by (simp add: is_datetime_def sample_now_def datetime_max_def)
  from update_running_recomputes [OF h1 h2 h3 h4 h5 h6 h7 h8,
      where val = "\<lambda>m. m" and self = init_WasherDryerTimeClass]
  obtain self1 self2 where
    r1: "update_from_latest_data (\<lambda>m. m) sample_washer sample_now init_WasherDryerTimeClass =
      Returned self1"
    and r2: "update_from_latest_data (\<lambda>m. m) ?wd2 (sample_now + 5 * 1000000) self1 =
      Returned self2"
    and v1: "attr_native_value self1 = Some (sample_now + 600 * 1000000)"
    and v2: "attr_native_value self2 = Some (sample_now + 5 * 1000000 + 300 * 1000000)"
    and lt: "sample_now + 5 * 1000000 + 300 * 1000000 < sample_now + 600 * (1000000::int)"
    by auto
  have e1: "self1 = sample_entity"
    using r1 h2
    by (simp add: update_from_latest_data_def Let_def h1 timedelta_seconds_def datetime_add_def
        is_datetime_def datetime_max_def sample_now_def init_WasherDryerTimeClass_def
        async_write_ha_state_def sample_entity_def)
  have e2: "self2 = \<lparr>running = Some True,
       attr_native_value = Some (sample_now + 5 * 1000000 + 300 * 1000000),
       ha_state_writes =
         [Some (sample_now + 600000000), Some (sample_now + 5 * 1000000 + 300 * 1000000)]\<rparr>"
    using r2 h6 unfolding e1
    by (simp add: update_from_latest_data_def Let_def h5 timedelta_seconds_def datetime_add_def
        is_datetime_def datetime_max_def sample_now_def async_write_ha_state_def
        sample_entity_def)
  from h1 h2 h6 r1 r2 v1 lt show ?thesis
    unfolding e1 e2 by simp
qed

text \<open>
  The claim as it was stated, that a later push with a smaller remaining-seconds value
  moves the stored timestamp earlier, fails when the value has dropped by less than the
  time that passed: 599 seconds reported 5 seconds after 600 seconds move the stored
  timestamp from \<open>sample_now\<close> + 600 s to \<open>sample_now\<close> + 604 s, which is later.
\<close>

theorem update_running_smaller_value_counterexample:
  "get_machine_state sample_washer = RunningMainCycle \<and>
   py_int (get_attribute sample_washer ''Cavity_TimeStatusEstTimeRemaining'') = Inr 600 \<and>
   update_from_latest_data (\<lambda>m. m) sample_washer sample_now init_WasherDryerTimeClass =
     Returned sample_entity \<and>
   attr_native_value sample_entity = Some (sample_now + 600 * 1000000) \<and>
   get_machine_state
     (set_attribute ''Cavity_TimeStatusEstTimeRemaining'' (Some ''599'') sample_washer) =
     RunningMainCycle \<and>
   py_int (get_attribute
      (set_attribute ''Cavity_TimeStatusEstTimeRemaining'' (Some ''599'') sample_washer)
      ''Cavity_TimeStatusEstTimeRemaining'') = Inr 599 \<and>
   (599::int) < 600 \<and>
   update_from_latest_data (\<lambda>m. m)
     (set_attribute ''Cavity_TimeStatusEstTimeRemaining'' (Some ''599'') sample_washer)
     (sample_now + 5 * 1000000) sample_entity =
     Returned \<lparr>running = Some True,
       attr_native_value = Some (sample_now + 604 * 1000000),
       ha_state_writes = [Some (sample_now + 600000000), Some (sample_now + 604 * 1000000)]\<rparr> \<and>
   sample_now + 600 * 1000000 < sample_now + 604 * (1000000::int)"
  by (simp add: update_from_latest_data_def Let_def set_attribute_def sample_washer_def
      py_int_def py_numeral_def int_max_str_digits_def py_strip_def py_isspace_def digit_of_def
      timedelta_seconds_def datetime_add_def is_datetime_def datetime_max_def sample_now_def
      init_WasherDryerTimeClass_def async_write_ha_state_def sample_entity_def)

text \<open>
  C2. On a push in machine state \<open>Complete\<close> or \<open>Standby\<close> with the running
  flag true, the updater sets the flag to false, stores exactly the instant \<open>now\<close>
  of the call and publishes it. No attribute of the vendor client enters the result: with
  any other attribute values the outcome is the same.
\<close>

theorem update_finish:
  assumes "get_machine_state wd = Complete \<or> get_machine_state wd = Standby"
    and "running self = Some True"
  shows "\<exists>self'. update_from_latest_data val wd now self = Returned self' \<and>
    running self' = Some False \<and> attr_native_value self' = Some now \<and>
    ha_state_writes self' = ha_state_writes self @ [Some now] \<and>
    update_from_latest_data val (wd\<lparr>get_attribute := attrs\<rparr>) now self = Returned self'"
proof -
  from assms(1) have "get_machine_state (wd\<lparr>get_attribute := attrs\<rparr>) = Complete \<or>
      get_machine_state (wd\<lparr>get_attribute := attrs\<rparr>) = Standby"
    by simp
  from update_finish_step [OF assms, of val now] update_finish_step [OF this assms(2), of val now]
  show ?thesis by simp
qed

theorem update_finish_witness:
  "get_machine_state (sample_washer\<lparr>get_machine_state := Complete\<rparr>) = Complete \<and>
   running sample_entity = Some True \<and>
   update_from_latest_data (\<lambda>m. m) (sample_washer\<lparr>get_machine_state := Complete\<rparr>)
     (sample_now + 610000000) sample_entity =
     Returned \<lparr>running = Some False, attr_native_value = Some (sample_now + 610000000),
       ha_state_writes = [Some (sample_now + 600000000), Some (sample_now + 610000000)]\<rparr>"
proof -
  let ?wd = "sample_washer\<lparr>get_machine_state := Complete\<rparr>"
  have h1: "get_machine_state ?wd = Complete \<or> get_machine_state ?wd = Standby"
    by simp
  have h2: "running sample_entity = Some True"
    by (simp add: sample_entity_def)
  from update_finish [OF h1 h2, where val = "\<lambda>m. m" and now = "sample_now + 610000000"]
  obtain self' where r: "update_from_latest_data (\<lambda>m. m) ?wd (sample_now + 610000000)
      sample_entity = Returned self'"
    and f: "running self' = Some False" "attr_native_value self' = Some (sample_now + 610000000)"
      "ha_state_writes self' = ha_state_writes sample_entity @ [Some (sample_now + 610000000)]"
    by blast
  from f have "self' = \<lparr>running = Some False, attr_native_value = Some (sample_now + 610000000),
       ha_state_writes = [Some (sample_now + 600000000), Some (sample_now + 610000000)]\<rparr>"
    by (cases self') (simp add: sample_entity_def)
  with r h2 show ?thesis by simp
qed

text \<open>
  C3. Members of the vendor enum have pairwise different values (\<open>val\<close> is
  injective on the members). Then a push whose machine state is not
  \<open>RunningMainCycle\<close>, and is not \<open>Complete\<close> or \<open>Standby\<close> with the running
  flag true, leaves the entity as it was: running flag, stored timestamp and published
  values are unchanged. The call returns, except on the answer \<open>None\<close>, where it
  raises \<open>AttributeError\<close> before anything is assigned. In particular, after a push
  that finished a run (\<open>Complete\<close> or \<open>Standby\<close> with the flag true, at
  \<open>now1\<close>), a further \<open>Complete\<close> or \<open>Standby\<close> push at any
  \<open>now2\<close> leaves the stored timestamp at \<open>now1\<close>.
\<close>

theorem update_frame:
  assumes "inj_on val {m. m \<noteq> NoMachineState}"
  shows "(get_machine_state wd \<noteq> RunningMainCycle \<and>
      \<not> ((get_machine_state wd = Complete \<or> get_machine_state wd = Standby) \<and>
         running self = Some True)
      \<longrightarrow> entity_after (update_from_latest_data val wd now self) = self \<and>
          update_from_latest_data val wd now self =
            (if get_machine_state wd = NoMachineState then Raised AttributeError self
             else Returned self)) \<and>
    ((get_machine_state wd1 = Complete \<or> get_machine_state wd1 = Standby) \<and>
      running self = Some True \<and>
      (get_machine_state wd2 = Complete \<or> get_machine_state wd2 = Standby)
      \<longrightarrow> (\<exists>self1. update_from_latest_data val wd1 now1 self = Returned self1 \<and>
            attr_native_value self1 = Some now1 \<and> running self1 = Some False \<and>
            update_from_latest_data val wd2 now2 self1 = Returned self1))"
proof (intro conjI impI)
  assume a: "get_machine_state wd \<noteq> RunningMainCycle \<and>
      \<not> ((get_machine_state wd = Complete \<or> get_machine_state wd = Standby) \<and>
         running self = Some True)"
  show out: "update_from_latest_data val wd now self =
      (if get_machine_state wd = NoMachineState then Raised AttributeError self
       else Returned self)"
  proof (cases "get_machine_state wd = NoMachineState")
    case True
    then show ?thesis by (simp add: update_none_step)
  next
    case False
    with assms a show ?thesis by (simp add: update_other_step)
  qed
  then show "entity_after (update_from_latest_data val wd now self) = self"
    by simp
next
  let ?self1 = "self\<lparr>running := Some False, attr_native_value := Some now1,
      ha_state_writes := ha_state_writes self @ [Some now1]\<rparr>"
  assume a: "(get_machine_state wd1 = Complete \<or> get_machine_state wd1 = Standby) \<and>
      running self = Some True \<and>
      (get_machine_state wd2 = Complete \<or> get_machine_state wd2 = Standby)"
  then have first: "update_from_latest_data val wd1 now1 self = Returned ?self1"
    by (simp add: update_finish_step)
  from a have "get_machine_state wd2 \<noteq> RunningMainCycle"
    and "get_machine_state wd2 \<noteq> NoMachineState"
    by auto
  with assms have "update_from_latest_data val wd2 now2 ?self1 = Returned ?self1"
    by (rule update_other_step) simp
  with first show "\<exists>self1. update_from_latest_data val wd1 now1 self = Returned self1 \<and>
      attr_native_value self1 = Some now1 \<and> running self1 = Some False \<and>
      update_from_latest_data val wd2 now2 self1 = Returned self1"
    by simp
qed

text \<open>
  A paused washer with the flag true, and a complete washer with the flag unset, change
  nothing; on the answer \<open>None\<close> the call raises and changes nothing; a run that is
  completed at \<open>sample_now\<close> + 610 s keeps that timestamp when a standby push arrives
  at \<open>sample_now\<close> + 900 s.
\<close>

theorem update_frame_witness:
  "inj_on (\<lambda>m::MachineState. m) {m. m \<noteq> NoMachineState} \<and>
   update_from_latest_data (\<lambda>m. m) (sample_washer\<lparr>get_machine_state := Pause\<rparr>)
     (sample_now + 5000000) sample_entity = Returned sample_entity \<and>
   update_from_latest_data (\<lambda>m. m) (sample_washer\<lparr>get_machine_state := Complete\<rparr>)
     (sample_now + 5000000) init_WasherDryerTimeClass = Returned init_WasherDryerTimeClass \<and>
   update_from_latest_data (\<lambda>m. m) (sample_washer\<lparr>get_machine_state := NoMachineState\<rparr>)
     (sample_now + 5000000) sample_entity = Raised AttributeError sample_entity \<and>
   update_from_latest_data (\<lambda>m. m) (sample_washer\<lparr>get_machine_state := Complete\<rparr>)
     (sample_now + 610000000) sample_entity =
     Returned \<lparr>running = Some False, attr_native_value = Some (sample_now + 610000000),
       ha_state_writes = [Some (sample_now + 600000000), Some (sample_now + 610000000)]\<rparr> \<and>
   update_from_latest_data (\<lambda>m. m) (sample_washer\<lparr>get_machine_state := Standby\<rparr>)
     (sample_now + 900000000)
     \<lparr>running = Some False, attr_native_value = Some (sample_now + 610000000),
       ha_state_writes = [Some (sample_now + 600000000), Some (sample_now + 610000000)]\<rparr> =
     Returned \<lparr>running = Some False, attr_native_value = Some (sample_now + 610000000),
       ha_state_writes = [Some (sample_now + 600000000), Some (sample_now + 610000000)]\<rparr>"
proof -
  let ?done = "\<lparr>running = Some False, attr_native_value = Some (sample_now + 610000000),
       ha_state_writes = [Some (sample_now + 600000000), Some (sample_now + 610000000)]\<rparr>"
  have i: "inj_on (\<lambda>m::MachineState. m) {m. m \<noteq> NoMachineState}"
    by simp
  have p1: "update_from_latest_data (\<lambda>m. m) (sample_washer\<lparr>get_machine_state := Pause\<rparr>)
     (sample_now + 5000000) sample_entity = Returned sample_entity"
    using update_frame [OF i, where wd = "sample_washer\<lparr>get_machine_state := Pause\<rparr>"
        and self = sample_entity and now = "sample_now + 5000000"]
    by simp
  have p2: "update_from_latest_data (\<lambda>m. m) (sample_washer\<lparr>get_machine_state := Complete\<rparr>)
     (sample_now + 5000000) init_WasherDryerTimeClass = Returned init_WasherDryerTimeClass"
    using update_frame [OF i, where wd = "sample_washer\<lparr>get_machine_state := Complete\<rparr>"
        and self = init_WasherDryerTimeClass and now = "sample_now + 5000000"]
    by (simp add: init_WasherDryerTimeClass_def)
  have p3: "update_from_latest_data (\<lambda>m. m)
     (sample_washer\<lparr>get_machine_state := NoMachineState\<rparr>)
     (sample_now + 5000000) sample_entity = Raised AttributeError sample_entity"
    using update_frame [OF i,
        where wd = "sample_washer\<lparr>get_machine_state := NoMachineState\<rparr>"
        and self = sample_entity and now = "sample_now + 5000000"]
    by simp
  from update_frame [OF i, where ?wd1.0 = "sample_washer\<lparr>get_machine_state := Complete\<rparr>"
        and ?wd2.0 = "sample_washer\<lparr>get_machine_state := Standby\<rparr>"
        and self = sample_entity and ?now1.0 = "sample_now + 610000000"
        and ?now2.0 = "sample_now + 900000000"]
  obtain self1 where
    r1: "update_from_latest_data (\<lambda>m. m) (sample_washer\<lparr>get_machine_state := Complete\<rparr>)
      (sample_now + 610000000) sample_entity = Returned self1"
    and r2: "update_from_latest_data (\<lambda>m. m) (sample_washer\<lparr>get_machine_state := Standby\<rparr>)
      (sample_now + 900000000) self1 = Returned self1"
    by (auto simp add: sample_entity_def)
  from r1 have "self1 = ?done"
    by (simp add: update_from_latest_data_def Let_def async_write_ha_state_def sample_entity_def)
  with i p1 p2 p3 r1 r2 show ?thesis by simp
qed

end
